theory Spec2Isabelle
  imports Complex_Main "HOL-Library.Multiset" "HOL-Library.Sublist" "HOL-Library.Word"
begin

section \<open>Tables\<close>

text \<open>
  The notebooks pass pandas tables from one call to the next. A table with a row index is
  a list of labelled rows, in row order; the label is the index entry of the row. A
  missing entry (NaN, None) of a column is \<open>None\<close>.
\<close>

type_synonym 'r frame = "(nat \<times> 'r) list"

section \<open>The grit cell of the evaluation notebook (2.evaluate.py, In[10])\<close>

text \<open>
  \<open>evaluate(..., operation="grit")\<close> belongs to cytominer-eval. The notebook reads the
  columns \<open>group\<close> and \<open>grit\<close> of its result (the plot of In[11]); whatever other columns
  the result has are kept as a list of cells. The score is a float: it is an element
  of any linear order here, and NaN is \<open>None\<close>.
\<close>

record 'a eval_row =
  group :: "string option"
  grit :: "'a option"
  other_cells :: "string option list"

text \<open>\<open>result.assign(cell_line=cell_line)\<close> adds one column.\<close>

record 'a grit_row = "'a eval_row" +
  cell_line :: "string option"

text \<open>The Cell Health profiles \<open>df\<close>: the metadata columns the cell reads, and the features.\<close>

record 'a profile =
  Metadata_cell_line :: "string option"
  Metadata_pert_name :: "string option"
  Metadata_gene_name :: "string option"
  feature_values :: "'a option list"

text \<open>\<open>Series.unique()\<close>: the distinct values in order of first appearance; NaN is one of them.\<close>

definition unique :: "'k list \<Rightarrow> 'k list" where
  "unique xs = rev (remdups (rev xs))"

text \<open>
  \<open>df.query("Metadata_cell_line == @cell_line")\<close>: the rows whose cell line equals the
  value. NaN equals nothing, itself included.
\<close>

definition query_cell_line :: "string option \<Rightarrow> 'a profile frame \<Rightarrow> 'a profile frame" where
  "query_cell_line c df =
     filter (\<lambda>(i, p). case (Metadata_cell_line p, c) of
                         (Some a, Some b) \<Rightarrow> a = b
                       | _ \<Rightarrow> False) df"

definition assign_cell_line :: "string option \<Rightarrow> 'a eval_row frame \<Rightarrow> 'a grit_row frame" where
  "assign_cell_line c result =
     map (\<lambda>(i, r). (i, \<lparr>group = group r, grit = grit r, other_cells = other_cells r,
                         cell_line = c\<rparr>)) result"

text \<open>
  The loop over the cell lines. \<open>evaluate\<close> is the library call with the fixed arguments
  of the cell; it may raise, and then the cell stops with that error.
\<close>

fun grit_loop ::
  "('a profile frame \<Rightarrow> 'e + 'a eval_row frame) \<Rightarrow> 'a profile frame \<Rightarrow> string option list
     \<Rightarrow> 'e + 'a grit_row frame list" where
  "grit_loop evaluate df [] = Inr []"
| "grit_loop evaluate df (c # cs) =
     (case evaluate (query_cell_line c df) of
        Inl e \<Rightarrow> Inl e
      | Inr result \<Rightarrow>
          (case grit_loop evaluate df cs of
             Inl e \<Rightarrow> Inl e
           | Inr rest \<Rightarrow> Inr (assign_cell_line c result # rest)))"

text \<open>
  \<open>pd.concat\<close>: the rows of the tables one after the other, each with its own label.
  The tables all have the columns that \<open>evaluate\<close> returns, so no cell is filled in. For
  an empty list (a profile table without rows) pandas raises; here the result is the
  empty table.
\<close>

definition pd_concat :: "'r frame list \<Rightarrow> 'r frame" where
  "pd_concat results = concat results"

text \<open>
  \<open>sort_values(by="grit", ascending=False)\<close>, as pandas' \<open>nargsort\<close> orders the rows:
  the rows with a score are reversed, argsorted by increasing score and reversed again,
  and the rows whose score is NaN follow in their own order (\<open>na_position="last"\<close>).
  The argsort is the insertion sort \<open>sort_key\<close>, which keeps rows of equal score in
  the order it receives them; numpy's default sort may arrange such rows otherwise, and
  no property stated below is about how rows of equal score are arranged.
\<close>

definition sort_values_grit :: "('a::linorder) grit_row frame \<Rightarrow> 'a grit_row frame" where
  "sort_values_grit df =
     (let non_nans = List.map_filter (\<lambda>(i, r). map_option (\<lambda>g. (g, (i, r))) (grit r)) df;
          nans = filter (\<lambda>(i, r). grit r = None) df
      in map snd (rev (sort_key fst (rev non_nans))) @ nans)"

text \<open>\<open>reset_index(drop=True)\<close>: the rows keep their order and are labelled 0, 1, 2, ...\<close>

definition reset_index_drop :: "'r frame \<Rightarrow> 'r frame" where
  "reset_index_drop df = zip [0..<length df] (map snd df)"

text \<open>\<open>dropna()\<close>: a row stays when none of its cells is missing.\<close>

definition notna :: "'a grit_row \<Rightarrow> bool" where
  "notna r \<longleftrightarrow>
     group r \<noteq> None \<and> grit r \<noteq> None \<and> None \<notin> set (other_cells r) \<and> cell_line r \<noteq> None"

definition dropna :: "'a grit_row frame \<Rightarrow> 'a grit_row frame" where
  "dropna df = filter (\<lambda>(i, r). notna r) df"

text \<open>The chain of "Merge results": concat, sort, reset the index, drop.\<close>

definition grit_results :: "('a::linorder) grit_row frame list \<Rightarrow> 'a grit_row frame" where
  "grit_results results =
     dropna (reset_index_drop (sort_values_grit (pd_concat results)))"

text \<open>The whole cell: the loop over \<open>df.Metadata_cell_line.unique()\<close>, then the chain.\<close>

definition grit_cell ::
  "(('a::linorder) profile frame \<Rightarrow> 'e + 'a eval_row frame) \<Rightarrow> 'a profile frame
     \<Rightarrow> 'e + 'a grit_row frame" where
  "grit_cell evaluate df =
     (case grit_loop evaluate df (unique (map (\<lambda>(i, p). Metadata_cell_line p) df)) of
        Inl e \<Rightarrow> Inl e
      | Inr results \<Rightarrow> Inr (grit_results results))"

text \<open>
  The chain the specification describes: the rows with a missing value are removed
  first, the sort comes after.
\<close>

definition grit_results_drop_first ::
  "('a::linorder) grit_row frame list \<Rightarrow> 'a grit_row frame" where
  "grit_results_drop_first results =
     reset_index_drop (sort_values_grit (dropna (pd_concat results)))"

text \<open>The scores of a table, top to bottom, the missing ones left out.\<close>

definition scores :: "'a grit_row frame \<Rightarrow> 'a list" where
  "scores df = List.map_filter (\<lambda>(i, r). grit r) df"

section \<open>The cell-count report of the profiling notebook (1.profile.py, In[7])\<close>

text \<open>
  \<open>count_cells()\<close> and the platemap file give tables whose columns are known by name
  only when the cell runs: a table is its list of column names and its rows, each row a
  list of cells in column order. Every row of a pandas table has one cell per column.
\<close>

datatype 'v cell = NA | Str string | Num 'v

record 'v dataframe =
  columns :: "string list"
  rows :: "'v cell list list"

definition rectangular :: "'v dataframe \<Rightarrow> bool" where
  "rectangular df \<longleftrightarrow> list_all (\<lambda>r. length r = length (columns df)) (rows df)"

datatype pd_error = KeyError string | ValueError

text \<open>The position of a column, by name.\<close>

fun get_loc :: "string \<Rightarrow> string list \<Rightarrow> nat option" where
  "get_loc k [] = None"
| "get_loc k (c # cs) = (if c = k then Some 0 else map_option Suc (get_loc k cs))"

text \<open>
  Before it joins, pandas compares the kinds of the two key columns. A column in which
  some cell is text is a text column (dtype object); a column of numbers and blanks, or
  of blanks only, is a numeric column (\<open>read_csv\<close> reads a blank column as float64). A
  text key against a numeric key raises ValueError. The comparison is skipped when one
  of the tables has no rows, and here also when both have none.
\<close>

definition has_text :: "'v cell list \<Rightarrow> bool" where
  "has_text cs \<longleftrightarrow> list_ex (\<lambda>c. case c of Str s \<Rightarrow> True | _ \<Rightarrow> False) cs"

definition incompatible_keys :: "'v cell list \<Rightarrow> 'v cell list \<Rightarrow> bool" where
  "incompatible_keys lk rk \<longleftrightarrow> lk \<noteq> [] \<and> rk \<noteq> [] \<and> has_text lk \<noteq> has_text rk"

text \<open>
  The keys of the left table in the order in which pandas 1.x emits their groups: by
  first appearance, the missing key last.
\<close>

definition key_groups :: "'v cell list \<Rightarrow> 'v cell list" where
  "key_groups lk = unique (filter (\<lambda>k. k \<noteq> NA) lk) @ (if NA \<in> set lk then [NA] else [])"

text \<open>
  \<open>left.merge(right, left_on=..., right_on=...)\<close> with every other argument at its
  default: \<open>how="inner"\<close>, \<open>suffixes=("_x", "_y")\<close>, no \<open>validate\<close>, no \<open>indicator\<close>.
  A key column that does not exist raises KeyError, the right key being looked up
  first; incompatible key columns raise ValueError. Each left row is joined with every
  right row that has the same key (a missing key matches a missing key); a left row
  whose key no right row has produces nothing. The joined rows come grouped by key
  (pandas 2.2 and later keep the order of the left rows instead; nothing below depends
  on the order). A column name that both tables have gets the suffix of its side.
\<close>

definition merge ::
  "'v dataframe \<Rightarrow> 'v dataframe \<Rightarrow> string \<Rightarrow> string \<Rightarrow> pd_error + 'v dataframe" where
  "merge left right left_on right_on =
     (case get_loc right_on (columns right) of
        None \<Rightarrow> Inl (KeyError right_on)
      | Some j \<Rightarrow>
          (case get_loc left_on (columns left) of
             None \<Rightarrow> Inl (KeyError left_on)
           | Some i \<Rightarrow>
               if incompatible_keys (map (\<lambda>l. l ! i) (rows left)) (map (\<lambda>r. r ! j) (rows right))
               then Inl ValueError
               else
                 Inr \<lparr>columns =
                        map (\<lambda>c. if c \<in> set (columns right) then c @ ''_x'' else c)
                          (columns left)
                        @ map (\<lambda>c. if c \<in> set (columns left) then c @ ''_y'' else c)
                            (columns right),
                      rows =
                        concat (map (\<lambda>k.
                            concat (map (\<lambda>l. map (\<lambda>r. l @ r)
                                                  (filter (\<lambda>r. r ! j = k) (rows right)))
                                      (filter (\<lambda>l. l ! i = k) (rows left))))
                          (key_groups (map (\<lambda>l. l ! i) (rows left))))\<rparr>))"

text \<open>
  \<open>to_csv(cell_count_file, sep="\t", index=False)\<close>: the file at that path now holds
  the table, header and rows. The files are a map from paths to what they hold.
\<close>

definition to_csv ::
  "'v dataframe \<Rightarrow> string \<Rightarrow> (string \<rightharpoonup> 'v dataframe) \<Rightarrow> (string \<rightharpoonup> 'v dataframe)" where
  "to_csv df path files = files(path \<mapsto> df)"

definition cell_count_file :: string where
  "cell_count_file = ''profiles/cell_counts.tsv''"

text \<open>
  The cell: merge the counts with the platemap, write the result. When the merge raises,
  nothing is written.
\<close>

definition cell_count_report ::
  "'v dataframe \<Rightarrow> 'v dataframe \<Rightarrow> (string \<rightharpoonup> 'v dataframe)
     \<Rightarrow> pd_error + (string \<rightharpoonup> 'v dataframe)" where
  "cell_count_report cell_count_df platemap_df files =
     (case merge cell_count_df platemap_df ''Metadata_Well'' ''well_position'' of
        Inl e \<Rightarrow> Inl e
      | Inr merged \<Rightarrow> Inr (to_csv merged cell_count_file files))"

section \<open>Stage output files (1.profile.py, In[5])\<close>

text \<open>
  The dictionary \<open>compression_options\<close> of the notebook, with its keys \<open>method\<close> and
  \<open>mtime\<close>. A dictionary need not have the key \<open>mtime\<close>, so that field is optional.
\<close>

record compression =
  compression_method :: string
  mtime :: "nat option"

definition compression_options :: compression where
  "compression_options = \<lparr>compression_method = ''gzip'', mtime = Some 1\<rparr>"

text \<open>
  Every stage call of the notebook (\<open>aggregate_profiles\<close>, \<open>annotate\<close>, \<open>normalize\<close>,
  \<open>feature_select\<close>, \<open>consensus\<close>) is given \<open>compression_options=compression_options\<close>
  and an output file; the library hands the dictionary to pandas' \<open>to_csv\<close>, which for
  the method gzip opens the file with Python's \<open>gzip.GzipFile\<close> and passes it the other
  keys (pandas 1.1 and later; setup.py asks for 1.1.4 or later). What follows is the
  gzip member that \<open>GzipFile\<close> writes, in the layout of RFC 1952: the header with its
  four-byte MTIME field, the deflate blocks, the CRC-32 and the length of the text. The
  time stamp is the \<open>mtime\<close> argument when there is one, and the clock when there is none.
  The deflate coder and the CRC are those of zlib, taken as given; so is the clock, in
  seconds. A time stamp that does not fit the four bytes makes Python raise; here the
  field keeps its low 32 bits.
\<close>

type_synonym byte = "8 word"

definition write32u :: "32 word \<Rightarrow> byte list" where
  "write32u w = map (\<lambda>k. ucast (drop_bit (8 * k) w)) [0, 1, 2, 3]"

definition gzip_header :: "compression \<Rightarrow> byte list \<Rightarrow> nat \<Rightarrow> byte list" where
  "gzip_header opts fname clock =
     [0x1f, 0x8b, 0x08, (if fname = [] then 0x00 else 0x08)]
     @ write32u (of_nat (case mtime opts of Some m \<Rightarrow> m | None \<Rightarrow> clock))
     @ [0x02, 0xff]
     @ (if fname = [] then [] else fname @ [0x00])"

definition gzip_write ::
  "(byte list \<Rightarrow> byte list) \<Rightarrow> (byte list \<Rightarrow> 32 word) \<Rightarrow> compression \<Rightarrow> byte list \<Rightarrow> nat
     \<Rightarrow> byte list \<Rightarrow> byte list" where
  "gzip_write deflate crc32 opts fname clock content =
     gzip_header opts fname clock @ deflate content @ write32u (crc32 content)
     @ write32u (of_nat (length content))"

text \<open>
  The bytes of a stage's output file: the table is rendered as delimited text
  (\<open>render\<close>, with the stage's separator and float format) and written through gzip.
\<close>

definition write_output ::
  "('t \<Rightarrow> byte list) \<Rightarrow> (byte list \<Rightarrow> byte list) \<Rightarrow> (byte list \<Rightarrow> 32 word) \<Rightarrow> compression
     \<Rightarrow> byte list \<Rightarrow> nat \<Rightarrow> 't \<Rightarrow> byte list" where
  "write_output render deflate crc32 opts fname clock df =
     gzip_write deflate crc32 opts fname clock (render df)"

section \<open>Feature selection (the call of 1.profile.py, In[14])\<close>

text \<open>The operation list of the notebook, \<open>feature_select_opts\<close>, names five operations.\<close>

datatype operation =
  variance_threshold | drop_na_columns | correlation_threshold | blocklist | drop_outliers

definition feature_select_opts :: "operation list" where
  "feature_select_opts =
     [variance_threshold, drop_na_columns, correlation_threshold, blocklist, drop_outliers]"

text \<open>
  Modelled from the spec: the profile table of section 3. \<open>feature_select\<close> is a function
  of pycytominer, which is not among the sources; the notebook only calls it. A table
  has metadata columns and feature columns; a feature column is its name and its
  values down the rows, a missing value being \<open>None\<close>.
\<close>

record 'v feature_column =
  feature_name :: string
  feature_vals :: "'v option list"

text \<open>Modelled from the spec: the two column classes of a profile table (section 3).\<close>

record 'v profile_table =
  metadata_columns :: "(string \<times> string option list) list"
  feature_columns :: "'v feature_column list"

text \<open>
  Modelled from the spec: what the five rules of section 4.4 measure and compare with.
  The statistics the spec leaves to the library (variance or frequency ratio of a
  column, correlation of a pair, which column of a pair has the higher mean absolute
  correlation to all others in the table, the denylist of names and patterns) are
  given; the rows they are computed on are all rows (\<open>samples="all"\<close> in the call).
\<close>

record 'v selection_rules =
  low_variance :: "'v option list \<Rightarrow> bool"
  na_cutoff :: 'v
  correlated :: "'v option list \<Rightarrow> 'v option list \<Rightarrow> bool"
  higher_mean_abs_corr ::
    "'v feature_column list \<Rightarrow> 'v feature_column \<Rightarrow> 'v feature_column \<Rightarrow> bool"
  blocklisted :: "string \<Rightarrow> bool"
  outlier_cutoff :: 'v

text \<open>
  Modelled from the spec: "drop columns whose missing-value fraction exceeds a cutoff".
  A column of a table without rows has no fraction and is kept.
\<close>

definition na_fraction_exceeds :: "('v::linordered_field) \<Rightarrow> 'v option list \<Rightarrow> bool" where
  "na_fraction_exceeds cutoff vs \<longleftrightarrow>
     vs \<noteq> [] \<and> cutoff < of_nat (length (filter (\<lambda>v. v = None) vs)) / of_nat (length vs)"

text \<open>Modelled from the spec: "drop columns containing values beyond a magnitude cutoff".\<close>

definition has_outlier :: "('v::linordered_field) \<Rightarrow> 'v option list \<Rightarrow> bool" where
  "has_outlier cutoff vs \<longleftrightarrow>
     list_ex (\<lambda>v. case v of None \<Rightarrow> False | Some x \<Rightarrow> cutoff < \<bar>x\<bar>) vs"

text \<open>Modelled from the spec: the pairs of columns of a table, each pair once.\<close>

fun pairs :: "'a list \<Rightarrow> ('a \<times> 'a) list" where
  "pairs [] = []"
| "pairs (x # xs) = map (Pair x) xs @ pairs xs"

text \<open>
  Modelled from the spec: the columns one operation removes from the table it is given
  (section 4.4, one equation per rule). The correlation rule drops one column of each
  pair whose correlation exceeds the cutoff, the one with the higher mean absolute
  correlation.
\<close>

fun excluded ::
  "('v::linordered_field) selection_rules \<Rightarrow> operation \<Rightarrow> 'v feature_column list
     \<Rightarrow> 'v feature_column list" where
  "excluded R variance_threshold cols = filter (\<lambda>c. low_variance R (feature_vals c)) cols"
| "excluded R drop_na_columns cols =
     filter (\<lambda>c. na_fraction_exceeds (na_cutoff R) (feature_vals c)) cols"
| "excluded R correlation_threshold cols =
     map (\<lambda>(a, b). if higher_mean_abs_corr R cols a b then a else b)
       (filter (\<lambda>(a, b). correlated R (feature_vals a) (feature_vals b)) (pairs cols))"
| "excluded R blocklist cols = filter (\<lambda>c. blocklisted R (feature_name c)) cols"
| "excluded R drop_outliers cols =
     filter (\<lambda>c. has_outlier (outlier_cutoff R) (feature_vals c)) cols"

text \<open>Modelled from the spec: one operation, "removing a subset of feature columns".\<close>

definition apply_operation ::
  "('v::linordered_field) selection_rules \<Rightarrow> operation \<Rightarrow> 'v feature_column list
     \<Rightarrow> 'v feature_column list" where
  "apply_operation R op cols = filter (\<lambda>c. c \<notin> set (excluded R op cols)) cols"

text \<open>
  Modelled from the spec: "apply each operation in sequence ... each operation's column
  set is computed on the table as reduced by all prior operations". The metadata
  columns are not touched.
\<close>

definition feature_select ::
  "('v::linordered_field) selection_rules \<Rightarrow> operation list \<Rightarrow> 'v profile_table
     \<Rightarrow> 'v profile_table" where
  "feature_select R ops t =
     t\<lparr>feature_columns := fold (apply_operation R) ops (feature_columns t)\<rparr>"

text \<open>An operation has nothing left to remove from a list of columns.\<close>

definition settled ::
  "('v::linordered_field) selection_rules \<Rightarrow> operation \<Rightarrow> 'v feature_column list \<Rightarrow> bool" where
  "settled R op cols \<longleftrightarrow> excluded R op cols = []"

text \<open>
  An example: rules that call a column of one repeated value low in variance, allow one
  missing value in twenty, take equal columns for correlated ones and drop the later
  column of a pair, deny one name, and cut at the magnitude 15; and a table of three
  wells with six feature columns, five of which fall to one rule each.
\<close>

definition example_rules :: "rat selection_rules" where
  "example_rules =
     \<lparr>low_variance = (\<lambda>vs. length (remdups vs) \<le> 1), na_cutoff = 1 / 20,
      correlated = (\<lambda>a b. a = b), higher_mean_abs_corr = (\<lambda>cols a b. False),
      blocklisted = (\<lambda>n. n = ''Nuclei_Location_Center_X''), outlier_cutoff = 15\<rparr>"

definition example_table :: "rat profile_table" where
  "example_table =
     \<lparr>metadata_columns = [(''Metadata_Well'', [Some ''A01'', Some ''A02'', Some ''A03''])],
      feature_columns =
        [\<lparr>feature_name = ''Cells_AreaShape_Area'', feature_vals = [Some 1, Some 2, Some 3]\<rparr>,
         \<lparr>feature_name = ''Cells_AreaShape_Zernike_0_0'',
          feature_vals = [Some 5, Some 5, Some 5]\<rparr>,
         \<lparr>feature_name = ''Nuclei_AreaShape_Area'', feature_vals = [Some 1, Some 2, Some 3]\<rparr>,
         \<lparr>feature_name = ''Nuclei_Intensity_Mean'', feature_vals = [Some 1, None, Some 3]\<rparr>,
         \<lparr>feature_name = ''Nuclei_Location_Center_X'',
          feature_vals = [Some 4, Some 2, Some 3]\<rparr>,
         \<lparr>feature_name = ''Cytoplasm_Intensity_Max'',
          feature_vals = [Some 1, Some (- 20), Some 3]\<rparr>]\<rparr>"

section \<open>Properties of the grit chain\<close>

subsection \<open>Rows and labels through the chain\<close>

lemma map_snd_dropna: "map snd (dropna df) = filter notna (map snd df)"
  by (induction df) (auto simp: dropna_def)

lemma map_snd_reset_index_drop: "map snd (reset_index_drop df) = map snd df"
  by (simp add: reset_index_drop_def)

lemma filter_zip_all:
  "\<forall>r \<in> set rs. P r \<Longrightarrow> filter (\<lambda>(i, r). P r) (zip ns rs) = zip ns rs"
  by (induction ns rs rule: list_induct2') simp_all

lemma filter_zip_none:
  "\<forall>r \<in> set rs. \<not> P r \<Longrightarrow> filter (\<lambda>(i, r). P r) (zip ns rs) = []"
  by (induction ns rs rule: list_induct2') simp_all

lemma dropna_reset_append:
  assumes "\<forall>x \<in> set S. notna (snd x)" and "\<forall>x \<in> set N. \<not> notna (snd x)"
  shows "dropna (reset_index_drop (S @ N)) = reset_index_drop S"
proof -
  have split: "reset_index_drop (S @ N)
      = zip [0..<length S] (map snd S) @ zip [length S..<length S + length N] (map snd N)"
    using upt_add_eq_append [of 0 "length S" "length N"]
    by (simp add: reset_index_drop_def)
  from assms(1) have "\<forall>r \<in> set (map snd S). notna r"
    by simp
  then have keep: "filter (\<lambda>(i, r). notna r) (zip [0..<length S] (map snd S))
      = zip [0..<length S] (map snd S)"
    by (rule filter_zip_all)
  from assms(2) have "\<forall>r \<in> set (map snd N). \<not> notna r"
    by simp
  then have lose: "filter (\<lambda>(i, r). notna r)
      (zip [length S..<length S + length N] (map snd N)) = []"
    by (rule filter_zip_none)
  show ?thesis
    unfolding dropna_def split filter_append keep lose
    by (simp add: reset_index_drop_def)
qed

subsection \<open>Scores\<close>

lemma scores_rows:
  "scores df = map (the \<circ> grit) (filter (\<lambda>r. grit r \<noteq> None) (map snd df))"
  by (induction df) (auto simp: scores_def List.map_filter_simps split: option.splits)

lemma scored_consistent:
  "x \<in> set (List.map_filter (\<lambda>(i, r). map_option (\<lambda>g. (g, (i, r))) (grit r)) df)
     \<Longrightarrow> grit (snd (snd x)) = Some (fst x)"
  by (induction df) (auto simp: List.map_filter_simps split: option.splits)

lemma scores_append: "scores (xs @ ys) = scores xs @ scores ys"
  by (induction xs) (auto simp: scores_def List.map_filter_simps split: option.splits)

lemma scores_nans: "scores (filter (\<lambda>(i, r). grit r = None) df) = []"
  by (induction df) (auto simp: scores_def List.map_filter_simps split: option.splits)

lemma scores_map_snd:
  "\<forall>x \<in> set xs. grit (snd (snd x)) = Some (fst x) \<Longrightarrow> scores (map snd xs) = map fst xs"
  by (induction xs) (auto simp: scores_def List.map_filter_simps split: option.splits)

lemma sorted_scores_sort_values_grit:
  "sorted_wrt (\<lambda>a b. b \<le> a) (scores (sort_values_grit df))"
proof -
  let ?nn = "List.map_filter (\<lambda>(i, r). map_option (\<lambda>g. (g, (i, r))) (grit r)) df"
  have "\<forall>x \<in> set (rev (sort_key fst (rev ?nn))). grit (snd (snd x)) = Some (fst x)"
    using scored_consistent [of _ df] by simp
  then have "scores (map snd (rev (sort_key fst (rev ?nn))))
      = map fst (rev (sort_key fst (rev ?nn)))"
    by (rule scores_map_snd)
  then have "scores (sort_values_grit df) = rev (map fst (sort_key fst (rev ?nn)))"
    by (simp add: sort_values_grit_def scores_append scores_nans rev_map)
  moreover have "sorted (map fst (sort_key fst (rev ?nn)))"
    by (rule sorted_sort_key)
  ultimately show ?thesis
    by (simp add: sorted_wrt_rev)
qed

lemma sorted_scores_rows_filter:
  assumes "sorted_wrt R (scores df)" and "map snd df' = filter Q (map snd df)"
  shows "sorted_wrt R (scores df')"
proof -
  have "sorted_wrt (\<lambda>x y. R ((the \<circ> grit) x) ((the \<circ> grit) y))
          (filter Q (filter (\<lambda>r. grit r \<noteq> None) (map snd df)))"
    using assms(1) unfolding scores_rows sorted_wrt_map by (rule sorted_wrt_filter)
  then show ?thesis
    unfolding scores_rows sorted_wrt_map assms(2) by (simp add: conj_commute)
qed

lemma grit_of_notna:
  "\<forall>(i, r) \<in> set df. notna r \<Longrightarrow> map (\<lambda>(i, r). grit r) df = map Some (scores df)"
  by (induction df) (auto simp: scores_def notna_def List.map_filter_simps split: option.splits)

text \<open>What the cell returns is the chain applied to the tables the loop collected.\<close>

lemma grit_cell_Inr:
  "grit_cell evaluate df = Inr out \<Longrightarrow>
     \<exists>results. grit_loop evaluate df (unique (map (\<lambda>(i, p). Metadata_cell_line p) df))
                 = Inr results \<and> out = grit_results results"
  by (auto simp: grit_cell_def split: sum.splits)

subsection \<open>C1: the rows with missing results are dropped before the ranking\<close>

lemma scored_rows:
  "map snd (List.map_filter (\<lambda>(i, r). map_option (\<lambda>g. (g, (i, r))) (grit r)) df)
     = filter (\<lambda>(i, r). grit r \<noteq> None) df"
  by (induction df) (auto simp: List.map_filter_simps split: option.splits)

lemma mset_sort_values_grit: "mset (sort_values_grit df) = mset df"
proof -
  let ?nn = "List.map_filter (\<lambda>(i, r). map_option (\<lambda>g. (g, (i, r))) (grit r)) df"
  have "mset (map snd (rev (sort_key fst (rev ?nn)))) = mset (map snd ?nn)"
    by simp
  also have "\<dots> = mset (filter (\<lambda>(i, r). grit r \<noteq> None) df)"
    by (simp only: scored_rows)
  finally have "mset (sort_values_grit df)
      = mset (filter (\<lambda>(i, r). grit r \<noteq> None) df) + mset (filter (\<lambda>(i, r). grit r = None) df)"
    by (simp add: sort_values_grit_def)
  also have "\<dots> = mset df"
    by (induction df) auto
  finally show ?thesis .
qed

lemma mset_rows_grit_results:
  "mset (map snd (grit_results results)) = filter_mset notna (mset (map snd (pd_concat results)))"
proof -
  have "mset (map snd (grit_results results))
      = filter_mset notna (image_mset snd (mset (sort_values_grit (pd_concat results))))"
    by (simp add: grit_results_def map_snd_dropna map_snd_reset_index_drop)
  then show ?thesis
    by (simp add: mset_sort_values_grit)
qed

lemma mset_rows_grit_results_drop_first:
  "mset (map snd (grit_results_drop_first results))
     = filter_mset notna (mset (map snd (pd_concat results)))"
proof -
  have "mset (map snd (grit_results_drop_first results))
      = image_mset snd (mset (sort_values_grit (dropna (pd_concat results))))"
    by (simp add: grit_results_drop_first_def map_snd_reset_index_drop)
  also have "\<dots> = mset (map snd (dropna (pd_concat results)))"
    by (simp add: mset_sort_values_grit)
  finally show ?thesis
    by (simp add: map_snd_dropna)
qed

lemma mset_scores: "mset (map snd df) = mset (map snd df') \<Longrightarrow> mset (scores df) = mset (scores df')"
proof -
  assume eq: "mset (map snd df) = mset (map snd df')"
  have "mset (scores d) = image_mset (the \<circ> grit) (filter_mset (\<lambda>r. grit r \<noteq> None) (mset (map snd d)))" for d :: "'a grit_row frame"
    by (simp add: scores_rows)
  with eq show ?thesis by simp
qed

lemma descending_unique:
  fixes xs ys :: "'a::linorder list"
  assumes "sorted_wrt (\<lambda>a b. b \<le> a) xs" "sorted_wrt (\<lambda>a b. b \<le> a) ys" "mset xs = mset ys"
  shows "xs = ys"
proof -
  from assms(1,2) have "sorted (rev xs)" "sorted (rev ys)"
    by (simp_all add: sorted_wrt_rev)
  moreover from assms(3) have "mset (rev xs) = mset (rev ys)"
    by simp
  ultimately have "sort (rev ys) = rev xs"
    by (intro properties_for_sort)
  moreover from \<open>sorted (rev ys)\<close> have "sort (rev ys) = rev ys"
    by (rule sorted_sort_id)
  ultimately show ?thesis by simp
qed

lemma sorted_scores_drop_first:
  "sorted_wrt (\<lambda>a b. b \<le> a) (scores (grit_results_drop_first results))"
proof -
  have "map snd (grit_results_drop_first results)
      = filter (\<lambda>r. True) (map snd (sort_values_grit (dropna (pd_concat results))))"
    by (simp add: grit_results_drop_first_def map_snd_reset_index_drop)
  with sorted_scores_sort_values_grit show ?thesis
    by (rule sorted_scores_rows_filter)
qed

lemma sorted_scores_grit_results:
  "sorted_wrt (\<lambda>a b. b \<le> a) (scores (grit_results results))"
proof -
  have "map snd (grit_results results)
      = filter notna (map snd (sort_values_grit (pd_concat results)))"
    by (simp add: grit_results_def map_snd_dropna map_snd_reset_index_drop)
  with sorted_scores_sort_values_grit show ?thesis
    by (rule sorted_scores_rows_filter)
qed

lemma scored_unchanged:
  "\<forall>x \<in> set df. f x \<noteq> None \<longrightarrow> P x \<Longrightarrow> List.map_filter f (filter P df) = List.map_filter f df"
  by (induction df) (auto simp: List.map_filter_simps split: option.splits)

lemma scored_complete:
  assumes "\<forall>(i, r) \<in> set df. grit r \<noteq> None \<longrightarrow> notna r"
    and "x \<in> set (List.map_filter (\<lambda>(i, r). map_option (\<lambda>g. (g, (i, r))) (grit r)) df)"
  shows "notna (snd (snd x))"
  using assms by (induction df) (auto simp: List.map_filter_simps split: option.splits)

lemma scored_dropna:
  assumes "\<forall>(i, r) \<in> set df. grit r \<noteq> None \<longrightarrow> notna r"
  shows "List.map_filter (\<lambda>(i, r). map_option (\<lambda>g. (g, (i, r))) (grit r)) (dropna df)
     = List.map_filter (\<lambda>(i, r). map_option (\<lambda>g. (g, (i, r))) (grit r)) df"
  using assms by (induction df) (auto simp: dropna_def List.map_filter_simps split: option.splits)

lemma nans_dropna: "filter (\<lambda>(i, r). grit r = None) (dropna df) = []"
  by (induction df) (auto simp: dropna_def notna_def)

text \<open>
  When every row that has a score is complete, both chains hand the same rows, in the same
  order, to the argsort, and the rows without a score end up below all others: the two
  tables are equal, whatever the argsort does with rows of equal score.
\<close>

lemma same_table:
  assumes H: "\<forall>(i, r) \<in> set (pd_concat results). grit r \<noteq> None \<longrightarrow> notna r"
  shows "grit_results results = grit_results_drop_first results"
proof -
  define X where "X = pd_concat results"
  define nn where
    "nn = List.map_filter (\<lambda>(i, r). map_option (\<lambda>g. (g, (i, r))) (grit r)) X"
  define S where "S = map snd (rev (sort_key fst (rev nn)))"
  define N where "N = filter (\<lambda>(i, r). grit r = None) X"
  have full: "sort_values_grit X = S @ N"
    by (simp add: sort_values_grit_def S_def N_def nn_def)
  have dropped: "sort_values_grit (dropna X) = S"
    using H unfolding X_def [symmetric]
    by (simp add: sort_values_grit_def scored_dropna nans_dropna S_def nn_def)
  have S: "\<forall>x \<in> set S. notna (snd x)"
  proof
    fix x assume "x \<in> set S"
    then obtain y where "y \<in> set nn" "x = snd y"
      by (auto simp: S_def)
    with scored_complete [OF H [folded X_def], of y] show "notna (snd x)"
      by (simp add: nn_def)
  qed
  have N: "\<forall>x \<in> set N. \<not> notna (snd x)"
    by (auto simp: N_def notna_def)
  have "dropna (reset_index_drop (S @ N)) = reset_index_drop S"
    using S N by (rule dropna_reset_append)
  then show ?thesis
    by (simp only: grit_results_def grit_results_drop_first_def full dropped flip: X_def)
qed

text \<open>
  C1: the final ranked table is the one obtained by removing the rows with a missing
  value before the descending sort. For every list of per-cell-line results the chain of
  the notebook, which calls \<open>dropna()\<close> last, returns the same rows as the chain that
  drops first, with the same scores from top to bottom; and when the rows with a missing
  value are the rows with a missing result (every row that has a score is complete),
  the two chains return the same table, labels included.
\<close>

theorem grit_results_as_drop_first:
  "mset (map snd (grit_results results)) = mset (map snd (grit_results_drop_first results))
   \<and> scores (grit_results results) = scores (grit_results_drop_first results)
   \<and> ((\<forall>(i, r) \<in> set (pd_concat results). grit r \<noteq> None \<longrightarrow> notna r)
        \<longrightarrow> grit_results results = grit_results_drop_first results)"
proof -
  have rows: "mset (map snd (grit_results results))
      = mset (map snd (grit_results_drop_first results))"
    by (simp only: mset_rows_grit_results mset_rows_grit_results_drop_first)
  have "scores (grit_results results) = scores (grit_results_drop_first results)"
    using sorted_scores_grit_results sorted_scores_drop_first mset_scores [OF rows]
    by (rule descending_unique)
  with rows same_table show ?thesis
    by blast
qed

text \<open>
  Two cell lines, five rows, two of them without a score: both chains return the three
  scored rows under the labels 0, 1, 2.
\<close>

theorem grit_results_as_drop_first_witness:
  "grit_results
     [[(0, \<lparr>group = Some ''MYC'', grit = Some (1::int), other_cells = [Some ''MYC-1''],
            cell_line = Some ''A549''\<rparr>),
       (1, \<lparr>group = Some ''AKT1'', grit = None, other_cells = [Some ''AKT1-1''],
            cell_line = Some ''A549''\<rparr>)],
      [(0, \<lparr>group = Some ''MYC'', grit = Some 4, other_cells = [Some ''MYC-1''],
            cell_line = Some ''ES2''\<rparr>),
       (1, \<lparr>group = Some ''TP53'', grit = None, other_cells = [Some ''TP53-1''],
            cell_line = Some ''ES2''\<rparr>),
       (2, \<lparr>group = Some ''AKT1'', grit = Some 2, other_cells = [Some ''AKT1-2''],
            cell_line = Some ''ES2''\<rparr>)]]
     = [(0, \<lparr>group = Some ''MYC'', grit = Some 4, other_cells = [Some ''MYC-1''],
              cell_line = Some ''ES2''\<rparr>),
        (1, \<lparr>group = Some ''AKT1'', grit = Some 2, other_cells = [Some ''AKT1-2''],
              cell_line = Some ''ES2''\<rparr>),
        (2, \<lparr>group = Some ''MYC'', grit = Some 1, other_cells = [Some ''MYC-1''],
              cell_line = Some ''A549''\<rparr>)]
   \<and> grit_results
     [[(0, \<lparr>group = Some ''MYC'', grit = Some (1::int), other_cells = [Some ''MYC-1''],
            cell_line = Some ''A549''\<rparr>),
       (1, \<lparr>group = Some ''AKT1'', grit = None, other_cells = [Some ''AKT1-1''],
            cell_line = Some ''A549''\<rparr>)],
      [(0, \<lparr>group = Some ''MYC'', grit = Some 4, other_cells = [Some ''MYC-1''],
            cell_line = Some ''ES2''\<rparr>),
       (1, \<lparr>group = Some ''TP53'', grit = None, other_cells = [Some ''TP53-1''],
            cell_line = Some ''ES2''\<rparr>),
       (2, \<lparr>group = Some ''AKT1'', grit = Some 2, other_cells = [Some ''AKT1-2''],
            cell_line = Some ''ES2''\<rparr>)]]
     = grit_results_drop_first
     [[(0, \<lparr>group = Some ''MYC'', grit = Some (1::int), other_cells = [Some ''MYC-1''],
            cell_line = Some ''A549''\<rparr>),
       (1, \<lparr>group = Some ''AKT1'', grit = None, other_cells = [Some ''AKT1-1''],
            cell_line = Some ''A549''\<rparr>)],
      [(0, \<lparr>group = Some ''MYC'', grit = Some 4, other_cells = [Some ''MYC-1''],
            cell_line = Some ''ES2''\<rparr>),
       (1, \<lparr>group = Some ''TP53'', grit = None, other_cells = [Some ''TP53-1''],
            cell_line = Some ''ES2''\<rparr>),
       (2, \<lparr>group = Some ''AKT1'', grit = Some 2, other_cells = [Some ''AKT1-2''],
            cell_line = Some ''ES2''\<rparr>)]]"
  using grit_results_as_drop_first
    [of "[[(0, \<lparr>group = Some ''MYC'', grit = Some (1::int), other_cells = [Some ''MYC-1''],
            cell_line = Some ''A549''\<rparr>),
       (1, \<lparr>group = Some ''AKT1'', grit = None, other_cells = [Some ''AKT1-1''],
            cell_line = Some ''A549''\<rparr>)],
      [(0, \<lparr>group = Some ''MYC'', grit = Some 4, other_cells = [Some ''MYC-1''],
            cell_line = Some ''ES2''\<rparr>),
       (1, \<lparr>group = Some ''TP53'', grit = None, other_cells = [Some ''TP53-1''],
            cell_line = Some ''ES2''\<rparr>),
       (2, \<lparr>group = Some ''AKT1'', grit = Some 2, other_cells = [Some ''AKT1-2''],
            cell_line = Some ''ES2''\<rparr>)]]"]
  by (simp add: grit_results_def grit_results_drop_first_def pd_concat_def sort_values_grit_def
      reset_index_drop_def dropna_def notna_def List.map_filter_simps)

text \<open>
  A row that has a score and lacks another cell is not a row with a missing result.
  Were there one, the chains would still agree on the rows and the scores, as shown
  above, and differ in the labels: the notebook's chain labels a row with its position
  in the sorted table of all scored rows.
\<close>

lemma grit_results_labels_example:
  "grit_results
     [[(0, \<lparr>group = None, grit = Some (3::int), other_cells = [],
            cell_line = Some ''A549''\<rparr>),
       (1, \<lparr>group = Some ''AKT1'', grit = Some 2, other_cells = [],
            cell_line = Some ''A549''\<rparr>)]]
     = [(1, \<lparr>group = Some ''AKT1'', grit = Some 2, other_cells = [],
              cell_line = Some ''A549''\<rparr>)]
   \<and> grit_results_drop_first
     [[(0, \<lparr>group = None, grit = Some (3::int), other_cells = [],
            cell_line = Some ''A549''\<rparr>),
       (1, \<lparr>group = Some ''AKT1'', grit = Some 2, other_cells = [],
            cell_line = Some ''A549''\<rparr>)]]
     = [(0, \<lparr>group = Some ''AKT1'', grit = Some 2, other_cells = [],
              cell_line = Some ''A549''\<rparr>)]"
  by (simp add: grit_results_def grit_results_drop_first_def pd_concat_def sort_values_grit_def
      reset_index_drop_def dropna_def notna_def List.map_filter_simps)

subsection \<open>C10: the table the cell returns\<close>

text \<open>
  C10: whatever tables the loop collected, the final table has no missing value in any
  column, and its scores, read from the top, never increase.
\<close>

theorem grit_results_complete_and_ranked:
  "(\<forall>(i, r) \<in> set (grit_results results).
        group r \<noteq> None \<and> grit r \<noteq> None \<and> None \<notin> set (other_cells r)
        \<and> cell_line r \<noteq> None)
   \<and> map (\<lambda>(i, r). grit r) (grit_results results) = map Some (scores (grit_results results))
   \<and> sorted_wrt (\<lambda>a b. b \<le> a) (scores (grit_results results))"
proof -
  have all: "\<forall>(i, r) \<in> set (grit_results results). notna r"
    by (auto simp: grit_results_def dropna_def)
  have rows: "map snd (grit_results results)
      = filter notna (map snd (sort_values_grit (pd_concat results)))"
    by (simp add: grit_results_def map_snd_dropna map_snd_reset_index_drop)
  have "sorted_wrt (\<lambda>a b. b \<le> a) (scores (grit_results results))"
    using sorted_scores_sort_values_grit rows by (rule sorted_scores_rows_filter)
  with all grit_of_notna [OF all] show ?thesis
    by (auto simp: notna_def)
qed

text \<open>
  Two cell lines, five rows, two of them with a missing value: three rows are returned,
  with the scores 4, 1, 1.
\<close>

theorem grit_results_complete_and_ranked_witness:
  "(0, \<lparr>group = Some ''MYC'', grit = Some (4::int), other_cells = [Some ''MYC-1''],
         cell_line = Some ''ES2''\<rparr>)
     \<in> set (grit_results
         [[(0, \<lparr>group = Some ''MYC'', grit = Some 1, other_cells = [Some ''MYC-1''],
                cell_line = Some ''A549''\<rparr>),
           (1, \<lparr>group = Some ''AKT1'', grit = None, other_cells = [Some ''AKT1-1''],
                cell_line = Some ''A549''\<rparr>)],
          [(0, \<lparr>group = Some ''MYC'', grit = Some 4, other_cells = [Some ''MYC-1''],
                cell_line = Some ''ES2''\<rparr>),
           (1, \<lparr>group = None, grit = Some 2, other_cells = [Some ''AKT1-1''],
                cell_line = Some ''ES2''\<rparr>),
           (2, \<lparr>group = Some ''AKT1'', grit = Some 1, other_cells = [Some ''AKT1-2''],
                cell_line = Some ''ES2''\<rparr>)]])
   \<and> scores (grit_results
         [[(0, \<lparr>group = Some ''MYC'', grit = Some 1, other_cells = [Some ''MYC-1''],
                cell_line = Some ''A549''\<rparr>),
           (1, \<lparr>group = Some ''AKT1'', grit = None, other_cells = [Some ''AKT1-1''],
                cell_line = Some ''A549''\<rparr>)],
          [(0, \<lparr>group = Some ''MYC'', grit = Some 4, other_cells = [Some ''MYC-1''],
                cell_line = Some ''ES2''\<rparr>),
           (1, \<lparr>group = None, grit = Some 2, other_cells = [Some ''AKT1-1''],
                cell_line = Some ''ES2''\<rparr>),
           (2, \<lparr>group = Some ''AKT1'', grit = Some 1, other_cells = [Some ''AKT1-2''],
                cell_line = Some ''ES2''\<rparr>)]]) = [4, 1, 1::int]
   \<and> sorted_wrt (\<lambda>a b. b \<le> a) [4, 1, 1::int]"
  using grit_results_complete_and_ranked
    [of "[[(0, \<lparr>group = Some ''MYC'', grit = Some (1::int), other_cells = [Some ''MYC-1''],
                cell_line = Some ''A549''\<rparr>),
           (1, \<lparr>group = Some ''AKT1'', grit = None, other_cells = [Some ''AKT1-1''],
                cell_line = Some ''A549''\<rparr>)],
          [(0, \<lparr>group = Some ''MYC'', grit = Some 4, other_cells = [Some ''MYC-1''],
                cell_line = Some ''ES2''\<rparr>),
           (1, \<lparr>group = None, grit = Some 2, other_cells = [Some ''AKT1-1''],
                cell_line = Some ''ES2''\<rparr>),
           (2, \<lparr>group = Some ''AKT1'', grit = Some 1, other_cells = [Some ''AKT1-2''],
                cell_line = Some ''ES2''\<rparr>)]]"]
  by (simp add: grit_results_def pd_concat_def sort_values_grit_def reset_index_drop_def
      dropna_def notna_def scores_def List.map_filter_simps)

section \<open>Properties of the cell-count report\<close>

lemma get_loc_less: "get_loc k cs = Some i \<Longrightarrow> i < length cs"
  by (induction cs arbitrary: i) (auto split: if_splits)

lemma set_key_groups: "set (key_groups lk) = set lk"
  by (auto simp: key_groups_def unique_def)

lemma merge_rows:
  assumes "merge left right left_on right_on = Inr merged"
    and "get_loc left_on (columns left) = Some i"
    and "get_loc right_on (columns right) = Some j"
  shows "rows merged =
      concat (map (\<lambda>k. concat (map (\<lambda>l. map (\<lambda>r. l @ r) (filter (\<lambda>r. r ! j = k) (rows right)))
                                   (filter (\<lambda>l. l ! i = k) (rows left))))
                (key_groups (map (\<lambda>l. l ! i) (rows left))))"
  using assms by (auto simp: merge_def split: if_splits)

lemma merge_rows_matched:
  assumes "merge left right left_on right_on = Inr merged"
    and "get_loc left_on (columns left) = Some i"
    and "get_loc right_on (columns right) = Some j"
    and "m \<in> set (rows merged)"
  shows "\<exists>l \<in> set (rows left). \<exists>r \<in> set (rows right). m = l @ r \<and> r ! j = l ! i"
  using assms(4) unfolding merge_rows [OF assms(1-3)] by auto

lemma merge_rows_all_matches:
  assumes "merge left right left_on right_on = Inr merged"
    and "get_loc left_on (columns left) = Some i"
    and "get_loc right_on (columns right) = Some j"
    and "l \<in> set (rows left)" and "r \<in> set (rows right)" and "r ! j = l ! i"
  shows "l @ r \<in> set (rows merged)"
proof -
  from assms(4) have "l ! i \<in> set (key_groups (map (\<lambda>l. l ! i) (rows left)))"
    by (simp add: set_key_groups)
  with assms(4-6) show ?thesis
    unfolding merge_rows [OF assms(1-3)] by auto
qed

subsection \<open>C9: wells the platemap does not know\<close>

text \<open>
  C9, as stated: a well that was counted and is absent from the platemap's
  \<open>well_position\<close> column is left out of the written report, and no error is raised.
  One well, A01, was counted; the platemap numbers its wells 1 and 2. A01 is absent from
  \<open>well_position\<close>, and the cell does not leave the well out of a report: the merge
  raises ValueError, for a text key against a numeric key, and no report is written.
\<close>

theorem cell_count_report_numeric_platemap_counterexample:
  "get_loc ''Metadata_Well'' [''Metadata_Plate'', ''Metadata_Well'', ''cell_count''] = Some 1
   \<and> get_loc ''well_position'' [''well_position'', ''treatment''] = Some 0
   \<and> Str ''A01'' \<notin> set [Num 1, Num (2::int)]
   \<and> cell_count_report
       \<lparr>columns = [''Metadata_Plate'', ''Metadata_Well'', ''cell_count''],
        rows = [[Str ''218360'', Str ''A01'', Num (120::int)]]\<rparr>
       \<lparr>columns = [''well_position'', ''treatment''],
        rows = [[Num 1, Str ''0.1% DMSO''], [Num 2, Str ''0.1% DMSO'']]\<rparr>
       Map.empty
     = Inl ValueError"
  by (simp add: cell_count_report_def merge_def incompatible_keys_def has_text_def)

text \<open>
  C9, amended: the counts are joined with the platemap by an inner merge on
  \<open>Metadata_Well = well_position\<close>. Let both key columns exist and the counted wells be
  named in text. When the platemap's \<open>well_position\<close> column holds text too, or the
  platemap has no rows, the cell raises nothing and writes the report, and a well of
  the count table that is absent from \<open>well_position\<close> has no row in the written
  report. When the platemap has rows and its \<open>well_position\<close> column holds no text
  (numbers or blanks only), the cell raises ValueError and writes nothing.
\<close>

theorem cell_count_report_unmatched_wells:
  assumes "rectangular cell_count_df"
    and "get_loc ''Metadata_Well'' (columns cell_count_df) = Some i"
    and "get_loc ''well_position'' (columns platemap_df) = Some j"
    and "has_text (map (\<lambda>l. l ! i) (rows cell_count_df))"
    and "l \<in> set (rows cell_count_df)"
    and "l ! i \<notin> (\<lambda>r. r ! j) ` set (rows platemap_df)"
  shows "(has_text (map (\<lambda>r. r ! j) (rows platemap_df)) \<or> rows platemap_df = [] \<longrightarrow>
            (\<exists>report. cell_count_report cell_count_df platemap_df files
                        = Inr (files(cell_count_file \<mapsto> report))
                 \<and> merge cell_count_df platemap_df ''Metadata_Well'' ''well_position''
                        = Inr report
                 \<and> (\<forall>m \<in> set (rows report). m ! i \<noteq> l ! i)))
       \<and> (\<not> has_text (map (\<lambda>r. r ! j) (rows platemap_df)) \<and> rows platemap_df \<noteq> [] \<longrightarrow>
            cell_count_report cell_count_df platemap_df files = Inl ValueError)"
proof (intro conjI impI)
  assume ok: "has_text (map (\<lambda>r. r ! j) (rows platemap_df)) \<or> rows platemap_df = []"
  with assms(4) have "\<not> incompatible_keys (map (\<lambda>l. l ! i) (rows cell_count_df))
      (map (\<lambda>r. r ! j) (rows platemap_df))"
    by (auto simp: incompatible_keys_def)
  with assms(2,3) obtain report
    where report: "merge cell_count_df platemap_df ''Metadata_Well'' ''well_position''
        = Inr report"
    by (simp add: merge_def)
  have "m ! i \<noteq> l ! i" if "m \<in> set (rows report)" for m
  proof
    assume eq: "m ! i = l ! i"
    from merge_rows_matched [OF report assms(2,3) that]
    obtain l' r where lr: "l' \<in> set (rows cell_count_df)" "r \<in> set (rows platemap_df)"
        "m = l' @ r" "r ! j = l' ! i"
      by blast
    from assms(1) lr(1) have "length l' = length (columns cell_count_df)"
      by (simp add: rectangular_def list_all_iff)
    with get_loc_less [OF assms(2)] have "m ! i = l' ! i"
      by (simp add: lr(3) nth_append)
    with eq lr(2,4) have "l ! i \<in> (\<lambda>r. r ! j) ` set (rows platemap_df)"
      by force
    with assms(6) show False
      by contradiction
  qed
  with report show "\<exists>report. cell_count_report cell_count_df platemap_df files
                        = Inr (files(cell_count_file \<mapsto> report))
                 \<and> merge cell_count_df platemap_df ''Metadata_Well'' ''well_position''
                        = Inr report
                 \<and> (\<forall>m \<in> set (rows report). m ! i \<noteq> l ! i)"
    by (simp add: cell_count_report_def to_csv_def)
next
  assume "\<not> has_text (map (\<lambda>r. r ! j) (rows platemap_df)) \<and> rows platemap_df \<noteq> []"
  moreover from assms(5) have "rows cell_count_df \<noteq> []"
    by auto
  ultimately have "incompatible_keys (map (\<lambda>l. l ! i) (rows cell_count_df))
      (map (\<lambda>r. r ! j) (rows platemap_df))"
    using assms(4) by (simp add: incompatible_keys_def)
  with assms(2,3) show "cell_count_report cell_count_df platemap_df files = Inl ValueError"
    by (simp add: cell_count_report_def merge_def)
qed

text \<open>
  Wells A01 and A02 were counted. With a platemap that lists A01 and A03 the report has
  the row of A01 only; with a platemap whose \<open>well_position\<close> column is blank the cell
  raises ValueError.
\<close>

theorem cell_count_report_unmatched_wells_witness:
  "rectangular \<lparr>columns = [''Metadata_Plate'', ''Metadata_Well'', ''cell_count''],
          rows = [[Str ''218360'', Str ''A01'', Num (120::int)],
                  [Str ''218360'', Str ''A02'', Num 95]]\<rparr>
   \<and> get_loc ''Metadata_Well'' [''Metadata_Plate'', ''Metadata_Well'', ''cell_count''] = Some 1
   \<and> get_loc ''well_position'' [''well_position'', ''treatment''] = Some 0
   \<and> has_text [Str ''A01'', Str ''A02'' :: int cell]
   \<and> has_text [Str ''A01'', Str ''A03'' :: int cell]
   \<and> Str ''A02'' \<notin> set [Str ''A01'', Str ''A03'' :: int cell]
   \<and> cell_count_report
        \<lparr>columns = [''Metadata_Plate'', ''Metadata_Well'', ''cell_count''],
          rows = [[Str ''218360'', Str ''A01'', Num (120::int)],
                  [Str ''218360'', Str ''A02'', Num 95]]\<rparr>
        \<lparr>columns = [''well_position'', ''treatment''],
          rows = [[Str ''A01'', Str ''0.1% DMSO''], [Str ''A03'', Str ''0.1% DMSO'']]\<rparr>
        Map.empty
     = Inr [cell_count_file \<mapsto>
         \<lparr>columns = [''Metadata_Plate'', ''Metadata_Well'', ''cell_count'', ''well_position'',
                     ''treatment''],
          rows = [[Str ''218360'', Str ''A01'', Num 120, Str ''A01'', Str ''0.1% DMSO'']]\<rparr>]
   \<and> \<not> has_text [NA, NA :: int cell]
   \<and> cell_count_report
        \<lparr>columns = [''Metadata_Plate'', ''Metadata_Well'', ''cell_count''],
          rows = [[Str ''218360'', Str ''A01'', Num (120::int)],
                  [Str ''218360'', Str ''A02'', Num 95]]\<rparr>
        \<lparr>columns = [''well_position'', ''treatment''],
          rows = [[NA, Str ''0.1% DMSO''], [NA, Str ''0.1% DMSO'']]\<rparr>
        Map.empty
     = Inl ValueError"
  using cell_count_report_unmatched_wells
    [of "\<lparr>columns = [''Metadata_Plate'', ''Metadata_Well'', ''cell_count''],
          rows = [[Str ''218360'', Str ''A01'', Num (120::int)],
                  [Str ''218360'', Str ''A02'', Num 95]]\<rparr>"
        1
        "\<lparr>columns = [''well_position'', ''treatment''],
          rows = [[Str ''A01'', Str ''0.1% DMSO''], [Str ''A03'', Str ''0.1% DMSO'']]\<rparr>"
        0
        "[Str ''218360'', Str ''A02'', Num 95]"
        Map.empty]
    cell_count_report_unmatched_wells
    [of "\<lparr>columns = [''Metadata_Plate'', ''Metadata_Well'', ''cell_count''],
          rows = [[Str ''218360'', Str ''A01'', Num (120::int)],
                  [Str ''218360'', Str ''A02'', Num 95]]\<rparr>"
        1
        "\<lparr>columns = [''well_position'', ''treatment''],
          rows = [[NA, Str ''0.1% DMSO''], [NA, Str ''0.1% DMSO'']]\<rparr>"
        0
        "[Str ''218360'', Str ''A02'', Num 95]"
        Map.empty]
  by (simp add: rectangular_def cell_count_report_def merge_def to_csv_def
      incompatible_keys_def has_text_def key_groups_def unique_def)

section \<open>Properties of the stage output files\<close>

text \<open>Without the key \<open>mtime\<close> the clock is written into the file.\<close>

lemma gzip_write_clock:
  "gzip_write deflate crc32 \<lparr>compression_method = ''gzip'', mtime = None\<rparr> fname 1 content
     \<noteq> gzip_write deflate crc32 \<lparr>compression_method = ''gzip'', mtime = None\<rparr> fname 2 content"
  by (simp add: gzip_write_def gzip_header_def write32u_def)

subsection \<open>C5: the bytes of a stage output do not depend on the clock\<close>

text \<open>
  C5: the notebook's options select gzip and pin the time stamp, so a stage that writes
  the same table under the same name at two different times writes the same bytes.
\<close>

theorem write_output_clock_independent:
  "compression_method compression_options = ''gzip''
   \<and> mtime compression_options = Some 1
   \<and> write_output render deflate crc32 compression_options fname clock df
       = write_output render deflate crc32 compression_options fname clock' df"
  by (simp add: write_output_def gzip_write_def gzip_header_def compression_options_def)

text \<open>The header written on behalf of the notebook, at two different times.\<close>

theorem write_output_clock_independent_witness:
  "gzip_header compression_options [] 1604500000 = [0x1f, 0x8b, 8, 0, 1, 0, 0, 0, 2, 0xff]
   \<and> write_output (\<lambda>df. df) (\<lambda>bs. bs) (\<lambda>bs. 0) compression_options [] 1604500000 [0x41, 0x0a]
       = write_output (\<lambda>df. df) (\<lambda>bs. bs) (\<lambda>bs. 0) compression_options [] 1604586400 [0x41, 0x0a]"
  using write_output_clock_independent
    [of "\<lambda>df. df" "\<lambda>bs. bs" "\<lambda>bs. 0" "[]" 1604500000 "[0x41, 0x0a]" 1604586400]
  by (simp add: gzip_header_def compression_options_def write32u_def)

section \<open>Properties of feature selection\<close>

lemma set_pairs_subset: "set (pairs xs) \<subseteq> set xs \<times> set xs"
  by (induction xs) auto

lemma subseq_set_subset: "subseq ys xs \<Longrightarrow> set ys \<subseteq> set xs"
  by (induction rule: list_emb.induct) auto

lemma pairs_subseq: "subseq ys xs \<Longrightarrow> set (pairs ys) \<subseteq> set (pairs xs)"
proof (induction rule: list_emb.induct)
  case (list_emb_Nil ys)
  then show ?case by simp
next
  case (list_emb_Cons xs ys y)
  then show ?case by auto
next
  case (list_emb_Cons2 x y xs ys)
  from list_emb_Cons2(2) have "set xs \<subseteq> set ys"
    by (rule subseq_set_subset)
  with list_emb_Cons2 show ?case by auto
qed

lemma settled_fixed: "settled R op cols \<Longrightarrow> apply_operation R op cols = cols"
  by (simp add: settled_def apply_operation_def)

text \<open>Removing columns from a settled table leaves it settled.\<close>

lemma settled_subseq:
  assumes "subseq ys xs" and "settled R op xs"
  shows "settled R op ys"
proof -
  have sub: "set ys \<subseteq> set xs"
    using assms(1) by (rule subseq_set_subset)
  show ?thesis
  proof (cases op)
    case correlation_threshold
    with assms(2) pairs_subseq [OF assms(1)] show ?thesis
      by (auto simp: settled_def filter_empty_conv)
  qed (use sub assms(2) in \<open>auto simp: settled_def filter_empty_conv\<close>)
qed

lemma filter_after_removal: "filter P (filter (\<lambda>c. c \<notin> set (filter P cols)) cols) = []"
  by (simp add: filter_empty_conv)

text \<open>An operation leaves nothing for itself to remove.\<close>

lemma settled_apply_operation: "settled R op (apply_operation R op cols)"
proof (cases op)
  case variance_threshold
  then show ?thesis
    by (simp add: settled_def apply_operation_def filter_after_removal)
next
  case drop_na_columns
  then show ?thesis
    by (simp add: settled_def apply_operation_def filter_after_removal)
next
  case correlation_threshold
  let ?E = "excluded R correlation_threshold cols"
  let ?ys = "filter (\<lambda>c. c \<notin> set ?E) cols"
  have "\<not> correlated R (feature_vals a) (feature_vals b)"
    if ab: "(a, b) \<in> set (pairs ?ys)" for a b
  proof
    assume c: "correlated R (feature_vals a) (feature_vals b)"
    have "subseq ?ys cols"
      by simp
    from pairs_subseq [OF this] ab have "(a, b) \<in> set (pairs cols)"
      by blast
    with c have "(if higher_mean_abs_corr R cols a b then a else b) \<in> set ?E"
      by force
    moreover from ab set_pairs_subset [of ?ys] have "a \<in> set ?ys" "b \<in> set ?ys"
      by blast+
    then have "a \<notin> set ?E" "b \<notin> set ?E"
      by simp_all
    ultimately show False
      by (simp split: if_splits)
  qed
  then have "filter (\<lambda>(a, b). correlated R (feature_vals a) (feature_vals b)) (pairs ?ys) = []"
    unfolding filter_empty_conv by blast
  then have "excluded R correlation_threshold ?ys = []"
    by (simp del: excluded.simps(3) add: excluded.simps(3) [of R ?ys])
  with correlation_threshold show ?thesis
    by (simp only: settled_def apply_operation_def)
next
  case blocklist
  then show ?thesis
    by (simp add: settled_def apply_operation_def filter_after_removal)
next
  case drop_outliers
  then show ?thesis
    by (simp add: settled_def apply_operation_def filter_after_removal)
qed

lemma subseq_apply_operation: "subseq (apply_operation R op cols) cols"
  by (simp add: apply_operation_def)

lemma subseq_fold_apply: "subseq (fold (apply_operation R) ops cols) cols"
proof (induction ops arbitrary: cols)
  case Nil
  then show ?case by simp
next
  case (Cons op ops)
  have "subseq (fold (apply_operation R) ops (apply_operation R op cols))
          (apply_operation R op cols)"
    by (rule Cons.IH)
  then show ?case
    using subseq_apply_operation [of R op cols] by (auto intro: subseq_order.trans)
qed

text \<open>After the whole list has run, every operation of the list is settled.\<close>

lemma settled_fold: "op \<in> set ops \<Longrightarrow> settled R op (fold (apply_operation R) ops cols)"
proof (induction ops arbitrary: cols)
  case Nil
  then show ?case by simp
next
  case (Cons o' ops)
  show ?case
  proof (cases "op = o'")
    case True
    have "settled R op (apply_operation R op cols)"
      by (rule settled_apply_operation)
    with subseq_fold_apply [of R ops "apply_operation R op cols"] True show ?thesis
      by (auto intro: settled_subseq)
  next
    case False
    with Cons show ?thesis by simp
  qed
qed

lemma fold_settled:
  "\<forall>op \<in> set ops. settled R op cols \<Longrightarrow> fold (apply_operation R) ops cols = cols"
  by (induction ops) (simp_all add: settled_fixed)

subsection \<open>C3: selecting twice\<close>

text \<open>
  C3: for every table, every operation list and whatever the statistics are, feature
  selection applied to its own output with the same list returns that output: no
  further column is removed.
\<close>

theorem feature_select_idempotent:
  "feature_select R ops (feature_select R ops t) = feature_select R ops t"
proof -
  have "fold (apply_operation R) ops (fold (apply_operation R) ops (feature_columns t))
      = fold (apply_operation R) ops (feature_columns t)"
    by (rule fold_settled) (simp add: settled_fold)
  then show ?thesis
    by (simp add: feature_select_def)
qed

text \<open>
  On the example, the notebook's five operations keep one feature column, and a second
  run keeps it.
\<close>

theorem feature_select_idempotent_witness:
  "feature_columns (feature_select example_rules feature_select_opts example_table)
     = [\<lparr>feature_name = ''Cells_AreaShape_Area'', feature_vals = [Some 1, Some 2, Some 3]\<rparr>]
   \<and> feature_select example_rules feature_select_opts
         (feature_select example_rules feature_select_opts example_table)
       = feature_select example_rules feature_select_opts example_table"
proof -
  have "feature_columns (feature_select example_rules feature_select_opts example_table)
      = [\<lparr>feature_name = ''Cells_AreaShape_Area'', feature_vals = [Some 1, Some 2, Some 3]\<rparr>]"
    by (simp add: feature_select_def feature_select_opts_def apply_operation_def
        example_rules_def example_table_def na_fraction_exceeds_def has_outlier_def)
  then show ?thesis
    using feature_select_idempotent [of example_rules feature_select_opts example_table]
    by (rule conjI)
qed

end
